theory Spec2Isabelle
  imports Main "HOL-Library.Word"
begin

section \<open>Status and error codes\<close>

text \<open>
  The source reports every failure through a \<open>Status\<close>: an error code and a message
  built with a \<open>StringBuilder\<close>. Only the codes that \<open>options_parser.cpp\<close> names or
  receives are listed; \<open>FailedToParse\<close> stands for what the number parser hands back.
\<close>

datatype ErrorCodes = OK | InternalError | BadValue | NoSuchKey | TypeMismatch | FailedToParse

datatype Status = Status (code: ErrorCodes) (reason: string)

definition Status_OK :: Status where
  "Status_OK = Status OK []"

definition isOK :: "Status \<Rightarrow> bool" where
  "isOK s = (code s = OK)"

fun errorString :: "ErrorCodes \<Rightarrow> string" where
  "errorString OK = ''OK''"
| "errorString InternalError = ''InternalError''"
| "errorString BadValue = ''BadValue''"
| "errorString NoSuchKey = ''NoSuchKey''"
| "errorString TypeMismatch = ''TypeMismatch''"
| "errorString FailedToParse = ''FailedToParse''"

definition toString :: "Status \<Rightarrow> string" where
  "toString s = errorString (code s) @ '' '' @ reason s"

section \<open>Values, option descriptions, the option section\<close>

type_synonym Key = string

text \<open>
  Modelled from the spec: class \<open>Value\<close> (\<open>value.h\<close> is not among the sources), the tagged
  union of section 3. The source builds one from \<open>bool\<close>, \<open>double\<close>, \<open>int\<close>, \<open>long\<close>,
  \<open>std::string\<close>, \<open>unsigned long long\<close>, \<open>unsigned\<close> and \<open>std::vector<std::string>\<close>;
  the machine numbers are kept as their bit patterns. A typed read of another tag
  fails with a type mismatch and performs no coercion.
\<close>

datatype Value =
    BoolValue bool
  | DoubleValue "64 word"
  | IntValue "32 word"
  | LongValue "64 word"
  | StringValue string
  | UnsignedLongLongValue "64 word"
  | UnsignedValue "32 word"
  | StringVectorValue "string list"

text \<open>Modelled from the spec: the typed reads \<open>Value::get\<close> that the source uses.\<close>

definition Value_get_bool :: "Value \<Rightarrow> Status + bool" where
  "Value_get_bool v =
     (case v of BoolValue b \<Rightarrow> Inr b
      | _ \<Rightarrow> Inl (Status TypeMismatch ''Value is not of type: bool''))"

definition Value_get_string :: "Value \<Rightarrow> Status + string" where
  "Value_get_string v =
     (case v of StringValue s \<Rightarrow> Inr s
      | _ \<Rightarrow> Inl (Status TypeMismatch ''Value is not of type: string''))"

definition Value_get_StringVector :: "Value \<Rightarrow> Status + string list" where
  "Value_get_StringVector v =
     (case v of StringVectorValue xs \<Rightarrow> Inr xs
      | _ \<Rightarrow> Inl (Status TypeMismatch ''Value is not of type: string vector''))"

datatype OptionType =
  StringVector | Bool | Double | Int' | Long | String | UnsignedLongLong | Unsigned | Switch

datatype OptionSources = SourceCommandLine | SourceINIConfig | SourceYAMLConfig

text \<open>
  Modelled from the spec: struct \<open>OptionDescription\<close> (\<open>option_description.h\<close> is not
  among the sources). The fields are the source's \<open>_dottedName\<close>, \<open>_singleName\<close>,
  \<open>_type\<close>, \<open>_sources\<close>, \<open>_isComposing\<close> and \<open>_default\<close>; the bit mask \<open>_sources\<close> is
  the set of its bits, so \<open>_sources & SourceYAMLConfig\<close> is membership. The type \<open>Int\<close>
  of the source is written \<open>Int'\<close>.
\<close>

record OptionDescription =
  dottedName :: Key
  singleName :: string
  optionType :: OptionType
  sources :: "OptionSources set"
  isComposing :: bool
  defaultValue :: "Value option"

text \<open>
  Modelled from the spec: class \<open>Constraint\<close> (\<open>constraints.h\<close> is not among the sources),
  a deferred validation rule over an Environment. It is the check it performs on what
  the Environment's lookup returns for each key.
\<close>

datatype Constraint = Constraint (check: "(Key \<Rightarrow> Value option) \<Rightarrow> Status")

text \<open>
  Modelled from the spec: class \<open>OptionSection\<close> (\<open>option_section.h\<close> is not among the
  sources): the ordered collection of option descriptions and the collection of
  constraints, with read accessors that the parser never sees fail. The source still
  tests the Status of every accessor, and so does the model.
\<close>

record OptionSection =
  options_list :: "OptionDescription list"
  constraints_list :: "Constraint list"

text \<open>
  Modelled from the spec: the accessors of \<open>OptionSection\<close>. \<open>getDefaults\<close> lists the
  defaults in the order of the options; the source walks them as a \<open>std::map\<close>, and
  writing them to the Environment gives the same store in either order.
\<close>

definition getAllOptions :: "OptionSection \<Rightarrow> Status \<times> OptionDescription list" where
  "getAllOptions options = (Status_OK, options_list options)"

definition getDefaults :: "OptionSection \<Rightarrow> Status \<times> (Key \<times> Value) list" where
  "getDefaults options =
     (Status_OK,
      concat (map (\<lambda>od. case defaultValue od of None \<Rightarrow> [] | Some v \<Rightarrow> [(dottedName od, v)])
                (options_list options)))"

definition getConstraints :: "OptionSection \<Rightarrow> Status \<times> Constraint list" where
  "getConstraints options = (Status_OK, constraints_list options)"

definition getBoostOptions :: "OptionSection \<Rightarrow> OptionSources \<Rightarrow> Status" where
  "getBoostOptions options src = Status_OK"

definition getBoostPositionalOptions :: "OptionSection \<Rightarrow> Status" where
  "getBoostPositionalOptions options = Status_OK"

section \<open>The Environment\<close>

text \<open>
  Modelled from the spec: class \<open>Environment\<close> (\<open>environment.h\<close> is not among the
  sources): the key to Value store, the parallel store of defaults, the attached
  constraints, and whether \<open>validate\<close> has been called. A read returns the explicit
  value, else the default, else \<open>NoSuchKey\<close>. \<open>set\<close> and \<open>setAll\<close> overwrite: the source
  looks a key up before \<open>set\<close> to find duplicates itself, and in \<open>addCompositions\<close> it
  sets again a key it has just read. Constraints are evaluated only once the caller
  has validated the Environment (the note at the layering step of \<open>run\<close>: it
  "should not fail validation as we haven't called environment->validate() yet");
  an update that the constraints reject is not applied.
\<close>

record Environment =
  env_values :: "Key \<Rightarrow> Value option"
  default_values :: "Key \<Rightarrow> Value option"
  constraints :: "Constraint list"
  valid :: bool

text \<open>
  Modelled from the spec: the operations of \<open>Environment\<close>. \<open>Environment0\<close> is the default
  constructed Environment; \<open>lookup\<close> is the read behind \<open>get\<close>; \<open>checked_update\<close> is the
  end of \<open>set\<close> and \<open>setAll\<close>, which keeps the update unless the Environment has been
  validated and a constraint rejects it.
\<close>

definition Environment0 :: Environment where
  "Environment0 =
     \<lparr>env_values = Map.empty, default_values = Map.empty, constraints = [], valid = False\<rparr>"

definition lookup :: "Environment \<Rightarrow> Key \<Rightarrow> Value option" where
  "lookup env k = (case env_values env k of Some v \<Rightarrow> Some v | None \<Rightarrow> default_values env k)"

fun runConstraints :: "Constraint list \<Rightarrow> (Key \<Rightarrow> Value option) \<Rightarrow> Status" where
  "runConstraints [] g = Status_OK"
| "runConstraints (c # cs) g =
     (let ret = check c g in if \<not> isOK ret then ret else runConstraints cs g)"

definition Environment_validate :: "Environment \<Rightarrow> Status \<times> Environment" where
  "Environment_validate env =
     (let ret = runConstraints (constraints env) (lookup env)
      in if \<not> isOK ret then (ret, env) else (Status_OK, env\<lparr>valid := True\<rparr>))"

definition checked_update :: "Environment \<Rightarrow> Environment \<Rightarrow> Status \<times> Environment" where
  "checked_update old new =
     (if valid old
      then (let ret = runConstraints (constraints new) (lookup new)
            in if \<not> isOK ret then (ret, old) else (Status_OK, new))
      else (Status_OK, new))"

definition Environment_get :: "Key \<Rightarrow> Environment \<Rightarrow> Status + Value" where
  "Environment_get k env =
     (case lookup env k of
        None \<Rightarrow> Inl (Status NoSuchKey (''Value not found for key: '' @ k))
      | Some v \<Rightarrow> Inr v)"

definition Environment_get_StringVector :: "Key \<Rightarrow> Environment \<Rightarrow> Status + string list" where
  "Environment_get_StringVector k env =
     (case Environment_get k env of Inl ret \<Rightarrow> Inl ret | Inr v \<Rightarrow> Value_get_StringVector v)"

definition Environment_set :: "Key \<Rightarrow> Value \<Rightarrow> Environment \<Rightarrow> Status \<times> Environment" where
  "Environment_set k v env = checked_update env (env\<lparr>env_values := (env_values env)(k \<mapsto> v)\<rparr>)"

definition Environment_setDefault :: "Key \<Rightarrow> Value \<Rightarrow> Environment \<Rightarrow> Status \<times> Environment" where
  "Environment_setDefault k v env =
     (Status_OK, env\<lparr>default_values := (default_values env)(k \<mapsto> v)\<rparr>)"

definition Environment_setAll :: "Environment \<Rightarrow> Environment \<Rightarrow> Status \<times> Environment" where
  "Environment_setAll add_environment env =
     checked_update env (env\<lparr>env_values := env_values env ++ env_values add_environment\<rparr>)"

definition Environment_addConstraint :: "Constraint \<Rightarrow> Environment \<Rightarrow> Environment" where
  "Environment_addConstraint c env = env\<lparr>constraints := constraints env @ [c]\<rparr>"

section \<open>What the parser receives from its collaborators\<close>

text \<open>
  A \<open>boost::any\<close> as \<open>boostAnyToValue\<close> tells its contents apart: by the type it holds.
  \<open>any_other\<close> carries the name of any other type.
\<close>

datatype boost_any =
    any_StringVector "string list"
  | any_bool bool
  | any_double "64 word"
  | any_int "32 word"
  | any_long "64 word"
  | any_string string
  | any_unsigned_long_long "64 word"
  | any_unsigned "32 word"
  | any_other string

type_synonym variables_map = "string \<Rightarrow> boost_any option"

text \<open>
  The outcome of \<open>po::store\<close> on a boost parser: one of the two exceptions the source
  catches, or the variables map.
\<close>

datatype po_result =
    multiple_occurrences string
  | po_error string
  | stored variables_map

text \<open>
  A \<open>YAML::Node\<close>. A mapping is the sequence of pairs its iterator yields, each key as
  the source reads it (\<open>it->first.Scalar()\<close>).
\<close>

datatype YAMLNode =
    YNull
  | YScalar string
  | YSequence "YAMLNode list"
  | YMap "(string \<times> YAMLNode) list"

datatype yaml_result =
    YAML_Exception string
  | runtime_error string
  | loaded YAMLNode

text \<open>
  The black boxes of the parser: the shared number parser \<open>parseNumberFromString\<close> at
  its five result types, the boost command line and config file parsers (they see the
  option section through \<open>getBoostOptions\<close>), the file system behind \<open>readConfigFile\<close>
  and \<open>YAML::Load\<close>. The number parser and \<open>readConfigFile\<close> return their Status next to
  what they wrote through the result pointer.
\<close>

record Collaborators =
  parseDouble :: "string \<Rightarrow> Status \<times> 64 word"
  parseInt :: "string \<Rightarrow> Status \<times> 32 word"
  parseLong :: "string \<Rightarrow> Status \<times> 64 word"
  parseUnsignedLongLong :: "string \<Rightarrow> Status \<times> 64 word"
  parseUnsigned :: "string \<Rightarrow> Status \<times> 32 word"
  command_line_parser :: "OptionSection \<Rightarrow> string list \<Rightarrow> po_result"
  parse_config_file :: "OptionSection \<Rightarrow> string \<Rightarrow> po_result"
  readConfigFile :: "string \<Rightarrow> Status \<times> string"
  YAML_Load :: "string \<Rightarrow> yaml_result"

fun IsNull :: "YAMLNode \<Rightarrow> bool" where
  "IsNull YNull = True"
| "IsNull _ = False"

fun IsScalar :: "YAMLNode \<Rightarrow> bool" where
  "IsScalar (YScalar s) = True"
| "IsScalar _ = False"

fun IsSequence :: "YAMLNode \<Rightarrow> bool" where
  "IsSequence (YSequence xs) = True"
| "IsSequence _ = False"

fun IsMap :: "YAMLNode \<Rightarrow> bool" where
  "IsMap (YMap es) = True"
| "IsMap _ = False"

text \<open>\<open>Node::Scalar()\<close>: the text of a scalar, the empty string of any other node.\<close>

fun Scalar :: "YAMLNode \<Rightarrow> string" where
  "Scalar (YScalar s) = s"
| "Scalar _ = []"

text \<open>The elements a sequence iterates over, and the pairs a mapping iterates over.\<close>

fun elements :: "YAMLNode \<Rightarrow> YAMLNode list" where
  "elements (YSequence xs) = xs"
| "elements _ = []"

fun entries :: "YAMLNode \<Rightarrow> (string \<times> YAMLNode) list" where
  "entries (YMap es) = es"
| "entries _ = []"

section \<open>Conversions\<close>

text \<open>\<open>boostAnyToValue\<close>. The \<open>bad_any_cast\<close> handler is dead: every cast follows a test of the type.\<close>

fun boostAnyToValue :: "boost_any \<Rightarrow> Status + Value" where
  "boostAnyToValue (any_StringVector xs) = Inr (StringVectorValue xs)"
| "boostAnyToValue (any_bool b) = Inr (BoolValue b)"
| "boostAnyToValue (any_double d) = Inr (DoubleValue d)"
| "boostAnyToValue (any_int i) = Inr (IntValue i)"
| "boostAnyToValue (any_long l) = Inr (LongValue l)"
| "boostAnyToValue (any_string s) = Inr (StringValue s)"
| "boostAnyToValue (any_unsigned_long_long u) = Inr (UnsignedLongLongValue u)"
| "boostAnyToValue (any_unsigned u) = Inr (UnsignedValue u)"
| "boostAnyToValue (any_other name) =
     Inl (Status InternalError (''Unrecognized type: '' @ name @ '' in any to Value conversion''))"

text \<open>
  The first loop of \<open>YAMLNodeToValue\<close>: the pair (\<open>isRegistered\<close>, \<open>type\<close>), overwritten by
  every description that has the key and admits the YAML source, so the last one wins.
\<close>

fun getExpectedType ::
  "OptionDescription list \<Rightarrow> Key \<Rightarrow> bool \<times> OptionType \<Rightarrow> bool \<times> OptionType" where
  "getExpectedType [] key acc = acc"
| "getExpectedType (od # ods) key acc =
     getExpectedType ods key
       (if key = dottedName od \<and> SourceYAMLConfig \<in> sources od
        then (True, optionType od) else acc)"

text \<open>The loop over the elements of a list-valued option.\<close>

fun sequenceToStrings :: "Key \<Rightarrow> YAMLNode list \<Rightarrow> string list \<Rightarrow> Status + string list" where
  "sequenceToStrings key [] stringVector = Inr stringVector"
| "sequenceToStrings key (it # its) stringVector =
     (if IsSequence it
      then Inl (Status BadValue (''Option: '' @ key @ '' has nested lists, which is not allowed''))
      else sequenceToStrings key its (stringVector @ [Scalar it]))"

text \<open>
  \<open>YAMLNodeToValue\<close>. The second test of the boolean branch repeats the literal of the
  first, as the source does. The \<open>default\<close> label of the switch is dead: the nine
  types are all handled.
\<close>

definition YAMLNodeToValue ::
  "Collaborators \<Rightarrow> YAMLNode \<Rightarrow> OptionDescription list \<Rightarrow> Key \<Rightarrow> Status + Value" where
  "YAMLNodeToValue X YAMLNode options_vector key =
     (case getExpectedType options_vector key (False, Bool) of
        (isRegistered, type) \<Rightarrow>
          if \<not> isRegistered then Inl (Status BadValue (''Unrecognized option: '' @ key))
          else if type = StringVector then
            (if \<not> IsSequence YAMLNode
             then Inl (Status BadValue (''Option: '' @ key @
                    '' is of type StringVector, but value in YAML config is not a list type''))
             else (case sequenceToStrings key (elements YAMLNode) [] of
                     Inl ret \<Rightarrow> Inl ret
                   | Inr stringVector \<Rightarrow> Inr (StringVectorValue stringVector)))
          else
            (let stringVal = Scalar YAMLNode in
             if type = Switch \<or> type = Bool then
               (if stringVal = ''true'' then Inr (BoolValue True)
                else if stringVal = ''true'' then Inr (BoolValue False)
                else Inl (Status BadValue (''Expected boolean but found string: '' @ stringVal @
                       '' for option: '' @ key)))
             else if type = Double then
               (case parseDouble X stringVal of
                  (ret, doubleVal) \<Rightarrow> if \<not> isOK ret then Inl ret else Inr (DoubleValue doubleVal))
             else if type = Int' then
               (case parseInt X stringVal of
                  (ret, intVal) \<Rightarrow> if \<not> isOK ret then Inl ret else Inr (IntValue intVal))
             else if type = Long then
               (case parseLong X stringVal of
                  (ret, longVal) \<Rightarrow> if \<not> isOK ret then Inl ret else Inr (LongValue longVal))
             else if type = String then Inr (StringValue stringVal)
             else if type = UnsignedLongLong then
               (case parseUnsignedLongLong X stringVal of
                  (ret, unsignedLongLongVal) \<Rightarrow>
                    if \<not> isOK ret then Inl ret
                    else Inr (UnsignedLongLongValue unsignedLongLongVal))
             else
               (case parseUnsigned X stringVal of
                  (ret, unsignedVal) \<Rightarrow>
                    if \<not> isOK ret then Inl ret else Inr (UnsignedValue unsignedVal))))"

section \<open>The command line and INI adapters\<close>

text \<open>
  The long name of an option: \<open>_singleName\<close> without its short alias. The source
  compares the offset of the first comma with \<open>size() - 2\<close> in unsigned arithmetic,
  which wraps for the one-character name; \<open>commaOffset + 2 \<noteq> size\<close> is the same test
  without the wrap.
\<close>

definition long_name_of :: "string \<Rightarrow> Status + string" where
  "long_name_of name =
     (if CHR '','' \<in> set name then
        (let commaOffset = length (takeWhile (\<lambda>c. c \<noteq> CHR '','') name) in
         if commaOffset + 2 \<noteq> length name
         then Inl (Status BadValue
                (''Unexpected comma in option name: '' @ [CHR 0x22] @ name @ [CHR 0x22] @
                 '': option name must be in the format '' @ [CHR 0x22] @ ''option,o'' @ [CHR 0x22] @
                 '' or '' @ [CHR 0x22] @ ''option'' @ [CHR 0x22] @ '', where '' @
                 [CHR 0x22] @ ''option'' @ [CHR 0x22] @ '' is the long name and '' @
                 [CHR 0x22] @ ''o'' @ [CHR 0x22] @
                 '' is the optional one character short alias''))
         else Inr (take commaOffset name))
      else Inr name)"

text \<open>
  The loop of \<open>addBoostVariablesToEnvironment\<close>. A switch whose value is false is
  skipped (\<open>continue\<close>); the Status of \<open>environment->set\<close> is not read here.
\<close>

fun addBoostVariables_loop ::
  "variables_map \<Rightarrow> OptionDescription list \<Rightarrow> Environment \<Rightarrow> Status \<times> Environment" where
  "addBoostVariables_loop vm [] environment = (Status_OK, environment)"
| "addBoostVariables_loop vm (od # ods) environment =
     (case long_name_of (singleName od) of
        Inl ret \<Rightarrow> (ret, environment)
      | Inr long_name \<Rightarrow>
          (case vm long_name of
             None \<Rightarrow> addBoostVariables_loop vm ods environment
           | Some anyValue \<Rightarrow>
               (case boostAnyToValue anyValue of
                  Inl ret \<Rightarrow> (ret, environment)
                | Inr optionValue \<Rightarrow>
                    if optionType od = Switch then
                      (case Value_get_bool optionValue of
                         Inl ret \<Rightarrow> (ret, environment)
                       | Inr b \<Rightarrow>
                           if \<not> b then addBoostVariables_loop vm ods environment
                           else addBoostVariables_loop vm ods
                                  (snd (Environment_set (dottedName od) optionValue environment)))
                    else addBoostVariables_loop vm ods
                           (snd (Environment_set (dottedName od) optionValue environment)))))"

definition addBoostVariablesToEnvironment ::
  "variables_map \<Rightarrow> OptionSection \<Rightarrow> Environment \<Rightarrow> Status \<times> Environment" where
  "addBoostVariablesToEnvironment vm options environment =
     (case getAllOptions options of
        (ret, options_vector) \<Rightarrow>
          if \<not> isOK ret then (ret, environment)
          else addBoostVariables_loop vm options_vector environment)"

definition parseCommandLine ::
  "Collaborators \<Rightarrow> OptionSection \<Rightarrow> string list \<Rightarrow> Environment \<Rightarrow> Status \<times> Environment" where
  "parseCommandLine X options argv environment =
     (let ret = getBoostOptions options SourceCommandLine in
      if \<not> isOK ret then (ret, environment)
      else let ret = getBoostPositionalOptions options in
      if \<not> isOK ret then (ret, environment)
      else
        (case command_line_parser X options argv of
           multiple_occurrences name \<Rightarrow>
             (Status BadValue (''Error parsing command line:  Multiple occurrences of option '' @
                [CHR 0x22] @ ''--'' @ name @ [CHR 0x22]), environment)
         | po_error what \<Rightarrow>
             (Status BadValue (''Error parsing command line: '' @ what), environment)
         | stored vm \<Rightarrow>
             (case addBoostVariablesToEnvironment vm options environment of
                (ret, environment') \<Rightarrow>
                  if \<not> isOK ret then (ret, environment') else (Status_OK, environment'))))"

definition parseINIConfigFile ::
  "Collaborators \<Rightarrow> OptionSection \<Rightarrow> string \<Rightarrow> Environment \<Rightarrow> Status \<times> Environment" where
  "parseINIConfigFile X options config environment =
     (let ret = getBoostOptions options SourceINIConfig in
      if \<not> isOK ret then (ret, environment)
      else
        (case parse_config_file X options config of
           multiple_occurrences name \<Rightarrow>
             (Status BadValue (''Error parsing INI config file:  Multiple occurrences of option '' @
                [CHR 0x22] @ name @ [CHR 0x22]), environment)
         | po_error what \<Rightarrow>
             (Status BadValue (''Error parsing INI config file: '' @ what), environment)
         | stored vm \<Rightarrow>
             (case addBoostVariablesToEnvironment vm options environment of
                (ret, environment') \<Rightarrow>
                  if \<not> isOK ret then (ret, environment') else (Status_OK, environment'))))"

section \<open>The YAML adapter\<close>

text \<open>The dotted name of a field: the field name at the top level, the parent's path for
  the field \<open>value\<close>, the path extended by the field name otherwise.\<close>

definition dottedNameOf :: "string \<Rightarrow> string \<Rightarrow> string" where
  "dottedNameOf parentPath fieldName =
     (if parentPath = [] then fieldName
      else if fieldName = ''value'' then parentPath
      else parentPath @ ''.'' @ fieldName)"

text \<open>The branch of the loop for a node that is not a mapping: convert, look for a
  duplicate, set.\<close>

definition addYAMLLeaf ::
  "Collaborators \<Rightarrow> YAMLNode \<Rightarrow> OptionDescription list \<Rightarrow> string \<Rightarrow> Environment
     \<Rightarrow> Status \<times> Environment" where
  "addYAMLLeaf X YAMLNode options_vector dottedName' environment =
     (case YAMLNodeToValue X YAMLNode options_vector dottedName' of
        Inl ret \<Rightarrow> (ret, environment)
      | Inr optionValue \<Rightarrow>
          (case Environment_get dottedName' environment of
             Inr dummyVal \<Rightarrow>
               (Status BadValue (''Error parsing YAML config: duplcate key: '' @ dottedName'),
                environment)
           | Inl notFound \<Rightarrow> Environment_set dottedName' optionValue environment))"

text \<open>
  \<open>addYAMLNodesToEnvironment\<close> and its loop. The Environment is updated in place, so
  it is returned with the Status, also on failure. For a mapping the loop calls the
  function again and reads nothing of what the call returns but the Environment. The
  function is entered with the root of the document and the empty path, or from the
  loop with a mapping.
\<close>

function addYAMLNodesToEnvironment ::
  "Collaborators \<Rightarrow> YAMLNode \<Rightarrow> OptionSection \<Rightarrow> string \<Rightarrow> Environment
     \<Rightarrow> Status \<times> Environment"
and addYAMLNodes_loop ::
  "Collaborators \<Rightarrow> (string \<times> YAMLNode) list \<Rightarrow> OptionDescription list \<Rightarrow> OptionSection
     \<Rightarrow> string \<Rightarrow> Environment \<Rightarrow> Status \<times> Environment"
where
  "addYAMLNodesToEnvironment X root options parentPath environment =
     (case getAllOptions options of
        (ret, options_vector) \<Rightarrow>
          if \<not> isOK ret then (ret, environment)
          else if IsNull root then (Status_OK, environment)
          else if \<not> IsMap root \<and> parentPath = []
          then (Status BadValue ''No map found at top level of YAML config'', environment)
          else addYAMLNodes_loop X (entries root) options_vector options parentPath environment)"
| "addYAMLNodes_loop X [] options_vector options parentPath environment =
     (Status_OK, environment)"
| "addYAMLNodes_loop X ((fieldName, YAMLNode) # rest) options_vector options parentPath
       environment =
     (let dottedName' = dottedNameOf parentPath fieldName in
      if IsMap YAMLNode
      then addYAMLNodes_loop X rest options_vector options parentPath
             (snd (addYAMLNodesToEnvironment X YAMLNode options dottedName' environment))
      else
        (case addYAMLLeaf X YAMLNode options_vector dottedName' environment of
           (ret, environment') \<Rightarrow>
             if \<not> isOK ret then (ret, environment')
             else addYAMLNodes_loop X rest options_vector options parentPath environment'))"
  by pat_completeness auto
termination
  apply (relation "measure (\<lambda>x. case x of
         Inl (X, root, options, parentPath, environment) \<Rightarrow> 2 * size root + 1
       | Inr (X, es, options_vector, options, parentPath, environment) \<Rightarrow>
           2 * size_list (size_prod (\<lambda>_. 0) size) es)")
     apply auto
  subgoal for root by (cases root) auto
  subgoal for root by (cases root) auto
  done

declare addYAMLNodesToEnvironment.simps [simp del]

definition parseYAMLConfigFile :: "Collaborators \<Rightarrow> string \<Rightarrow> Status + YAMLNode" where
  "parseYAMLConfigFile X config =
     (case YAML_Load X config of
        YAML_Exception what \<Rightarrow>
          Inl (Status BadValue (''Error parsing YAML config file: '' @ what))
      | runtime_error what \<Rightarrow>
          Inl (Status BadValue (''Unexpected exception parsing YAML config file: '' @ what))
      | loaded YAMLConfig \<Rightarrow> Inr YAMLConfig)"

definition isYAMLConfig :: "YAMLNode \<Rightarrow> bool" where
  "isYAMLConfig config = (if IsScalar config then False else True)"

section \<open>Compositions, defaults, constraints\<close>

text \<open>
  The loop of \<open>addCompositions\<close>: for every composing option that the source
  Environment holds as a vector of strings, the destination's vector (empty when the
  key is not there) with the source's appended is set in the destination.
\<close>

fun addCompositions_loop ::
  "OptionDescription list \<Rightarrow> Environment \<Rightarrow> Environment \<Rightarrow> Status \<times> Environment" where
  "addCompositions_loop [] source dest = (Status_OK, dest)"
| "addCompositions_loop (od # ods) source dest =
     (if isComposing od then
        (case Environment_get_StringVector (dottedName od) source of
           Inl ret \<Rightarrow>
             if code ret \<noteq> NoSuchKey
             then (Status InternalError
                     (''Error getting composable vector value from source: '' @ toString ret),
                   dest)
             else addCompositions_loop ods source dest
         | Inr source_value \<Rightarrow>
             (case (case Environment_get_StringVector (dottedName od) dest of
                      Inl ret \<Rightarrow> if code ret \<noteq> NoSuchKey then Inl ret else Inr []
                    | Inr dest_value \<Rightarrow> Inr dest_value) of
                Inl ret \<Rightarrow>
                  (Status InternalError
                     (''Error getting composable vector value from dest: '' @ toString ret),
                   dest)
              | Inr dest_value \<Rightarrow>
                  (case Environment_set (dottedName od)
                          (StringVectorValue (dest_value @ source_value)) dest of
                     (ret, dest') \<Rightarrow>
                       if \<not> isOK ret then (ret, dest')
                       else addCompositions_loop ods source dest')))
      else addCompositions_loop ods source dest)"

definition addCompositions ::
  "OptionSection \<Rightarrow> Environment \<Rightarrow> Environment \<Rightarrow> Status \<times> Environment" where
  "addCompositions options source dest =
     (case getAllOptions options of
        (ret, options_vector) \<Rightarrow>
          if \<not> isOK ret then (ret, dest)
          else addCompositions_loop options_vector source dest)"

definition addConstraints :: "OptionSection \<Rightarrow> Environment \<Rightarrow> Status \<times> Environment" where
  "addConstraints options dest =
     (case getConstraints options of
        (ret, constraints_vector) \<Rightarrow>
          if \<not> isOK ret then (ret, dest)
          else (Status_OK, foldl (\<lambda>d c. Environment_addConstraint c d) dest constraints_vector))"

fun addDefaultValues_loop :: "(Key \<times> Value) list \<Rightarrow> Environment \<Rightarrow> Status \<times> Environment" where
  "addDefaultValues_loop [] environment = (Status_OK, environment)"
| "addDefaultValues_loop ((k, v) # rest) environment =
     (case Environment_setDefault k v environment of
        (ret, environment') \<Rightarrow>
          if \<not> isOK ret then (ret, environment')
          else addDefaultValues_loop rest environment')"

definition addDefaultValues :: "OptionSection \<Rightarrow> Environment \<Rightarrow> Status \<times> Environment" where
  "addDefaultValues options environment =
     (case getDefaults options of
        (ret, defaultOptions) \<Rightarrow>
          if \<not> isOK ret then (ret, environment)
          else addDefaultValues_loop defaultOptions environment)"

section \<open>The merge engine\<close>

text \<open>
  \<open>OptionsParser::run\<close>, in the three parts its comments name. \<open>configStage\<close> is the
  block that looks for \<open>config\<close> in the command line Environment and fills the config
  Environment; \<open>composeStage\<close> is the two calls of \<open>addCompositions\<close>; \<open>layerStage\<close>
  writes to the caller's Environment. The caller's Environment is updated in place,
  so \<open>run\<close> returns it with the Status, as it stands when \<open>run\<close> returns.
\<close>

definition configStage ::
  "Collaborators \<Rightarrow> OptionSection \<Rightarrow> Environment \<Rightarrow> Status \<times> Environment" where
  "configStage X options commandLineEnvironment =
     (case Environment_get ''config'' commandLineEnvironment of
        Inl ret \<Rightarrow>
          if code ret \<noteq> NoSuchKey then (ret, Environment0) else (Status_OK, Environment0)
      | Inr config_value \<Rightarrow>
          (case Value_get_string config_value of
             Inl ret \<Rightarrow> (ret, Environment0)
           | Inr config_filename \<Rightarrow>
               (case readConfigFile X config_filename of
                  (ret, config_file) \<Rightarrow>
                    if \<not> isOK ret then (ret, Environment0)
                    else
                      (case parseYAMLConfigFile X config_file of
                         Inl ret \<Rightarrow> (ret, Environment0)
                       | Inr YAMLConfig \<Rightarrow>
                           if isYAMLConfig YAMLConfig
                           then addYAMLNodesToEnvironment X YAMLConfig options [] Environment0
                           else parseINIConfigFile X options config_file Environment0))))"

definition composeStage ::
  "OptionSection \<Rightarrow> Environment \<Rightarrow> Environment \<Rightarrow> Status \<times> Environment" where
  "composeStage options commandLineEnvironment configEnvironment =
     (case addCompositions options commandLineEnvironment Environment0 of
        (ret, composedEnvironment) \<Rightarrow>
          if \<not> isOK ret then (ret, composedEnvironment)
          else addCompositions options configEnvironment composedEnvironment)"

definition layerStage ::
  "OptionSection \<Rightarrow> Environment \<Rightarrow> Environment \<Rightarrow> Environment \<Rightarrow> Environment
     \<Rightarrow> Status \<times> Environment" where
  "layerStage options configEnvironment commandLineEnvironment composedEnvironment environment =
     (case addDefaultValues options environment of
        (ret, env1) \<Rightarrow>
          if \<not> isOK ret then (ret, env1)
          else
            (case Environment_setAll configEnvironment env1 of
               (ret, env2) \<Rightarrow>
                 if \<not> isOK ret then (ret, env2)
                 else
                   (case Environment_setAll commandLineEnvironment env2 of
                      (ret, env3) \<Rightarrow>
                        if \<not> isOK ret then (ret, env3)
                        else
                          (case Environment_setAll composedEnvironment env3 of
                             (ret, env4) \<Rightarrow>
                               if \<not> isOK ret then (ret, env4)
                               else
                                 (case addConstraints options env4 of
                                    (ret, env5) \<Rightarrow>
                                      if \<not> isOK ret then (ret, env5)
                                      else (Status_OK, env5))))))"

definition run ::
  "Collaborators \<Rightarrow> OptionSection \<Rightarrow> string list \<Rightarrow> Environment \<Rightarrow> Status \<times> Environment" where
  "run X options argv environment =
     (case parseCommandLine X options argv Environment0 of
        (ret, commandLineEnvironment) \<Rightarrow>
          if \<not> isOK ret then (ret, environment)
          else
            (case configStage X options commandLineEnvironment of
               (ret, configEnvironment) \<Rightarrow>
                 if \<not> isOK ret then (ret, environment)
                 else
                   (case composeStage options commandLineEnvironment configEnvironment of
                      (ret, composedEnvironment) \<Rightarrow>
                        if \<not> isOK ret then (ret, environment)
                        else layerStage options configEnvironment commandLineEnvironment
                               composedEnvironment environment)))"

section \<open>Concrete inputs\<close>

text \<open>
  Collaborators that answer every call the same way: the command line parser with
  \<open>cl\<close>, the config file parser with \<open>ini\<close>, the file system with the text \<open>config\<close>, the
  YAML parser with \<open>yaml\<close>; the number parser rejects every string.
\<close>

definition fixed_collaborators ::
  "po_result \<Rightarrow> po_result \<Rightarrow> string \<Rightarrow> yaml_result \<Rightarrow> Collaborators" where
  "fixed_collaborators cl ini config yaml =
     \<lparr>parseDouble = (\<lambda>s. (Status FailedToParse s, 0)),
      parseInt = (\<lambda>s. (Status FailedToParse s, 0)),
      parseLong = (\<lambda>s. (Status FailedToParse s, 0)),
      parseUnsignedLongLong = (\<lambda>s. (Status FailedToParse s, 0)),
      parseUnsigned = (\<lambda>s. (Status FailedToParse s, 0)),
      command_line_parser = (\<lambda>options argv. cl),
      parse_config_file = (\<lambda>options text. ini),
      readConfigFile = (\<lambda>filename. (Status_OK, config)),
      YAML_Load = (\<lambda>text. yaml)\<rparr>"

text \<open>An option that every source may supply, with no short alias and no default.\<close>

definition plain_option :: "Key \<Rightarrow> OptionType \<Rightarrow> bool \<Rightarrow> OptionDescription" where
  "plain_option k t composing =
     \<lparr>dottedName = k, singleName = k, optionType = t,
      sources = {SourceCommandLine, SourceINIConfig, SourceYAMLConfig},
      isComposing = composing, defaultValue = None\<rparr>"

definition plain_section :: "OptionDescription list \<Rightarrow> OptionSection" where
  "plain_section ods = \<lparr>options_list = ods, constraints_list = []\<rparr>"


text \<open>The vector of strings an Environment holds for a key; empty when it holds none.\<close>

definition vector_at :: "Environment \<Rightarrow> Key \<Rightarrow> string list" where
  "vector_at env k = (case env_values env k of Some (StringVectorValue xs) \<Rightarrow> xs | _ \<Rightarrow> [])"

text \<open>A schema: a config file name, a port with a default, a composing list, a dotted
  key and two booleans.\<close>

definition example_section :: OptionSection where
  "example_section =
     plain_section
       [plain_option ''config'' String False,
        (plain_option ''port'' String False)\<lparr>defaultValue := Some (StringValue ''27017'')\<rparr>,
        plain_option ''setParameter'' StringVector True,
        plain_option ''storage.dbPath'' String False,
        plain_option ''auth'' Bool False,
        plain_option ''noauth'' Bool False]"

text \<open>
  A run in which the command line and a YAML config file both give the port and the
  composing list:
  \<^verbatim>\<open>mongod --config mongod.conf --port 1 --setParameter c1 --setParameter c2\<close>
  with the file
  \<^verbatim>\<open>port: 2
setParameter: [f1, f2]\<close>
\<close>

definition merge_collaborators :: Collaborators where
  "merge_collaborators =
     fixed_collaborators
       (stored [''config'' \<mapsto> any_string ''mongod.conf'', ''port'' \<mapsto> any_string ''1'',
                ''setParameter'' \<mapsto> any_StringVector [''c1'', ''c2'']])
       (po_error [])
       ''port: 2''
       (loaded (YMap [(''port'', YScalar ''2''),
                      (''setParameter'', YSequence [YScalar ''f1'', YScalar ''f2''])]))"

definition merge_argv :: "string list" where
  "merge_argv = [''mongod'', ''--config'', ''mongod.conf'', ''--port'', ''1'',
                 ''--setParameter'', ''c1'', ''--setParameter'', ''c2'']"



section \<open>Basic facts\<close>

lemma isOK_Status_OK: "isOK Status_OK"
  by (simp add: isOK_def Status_OK_def)

lemma Environment_set_fresh:
  "\<not> valid env \<Longrightarrow>
     Environment_set k v env = (Status_OK, env\<lparr>env_values := (env_values env)(k \<mapsto> v)\<rparr>)"
  by (simp add: Environment_set_def checked_update_def)

lemma long_name_of_error: "long_name_of name = Inl ret \<Longrightarrow> \<not> isOK ret"
  by (auto simp: long_name_of_def isOK_def Let_def split: if_splits)

lemma boostAnyToValue_error: "boostAnyToValue a = Inl ret \<Longrightarrow> \<not> isOK ret"
  by (cases a) (auto simp: isOK_def)

lemma Value_get_bool_error: "Value_get_bool v = Inl ret \<Longrightarrow> \<not> isOK ret"
  by (auto simp: Value_get_bool_def isOK_def split: Value.splits)

lemma checked_update_OK:
  "checked_update old new = (ret, env') \<Longrightarrow> isOK ret \<Longrightarrow> env' = new"
  by (auto simp: checked_update_def Let_def split: if_splits)

lemma addYAMLNodes_map:
  "addYAMLNodesToEnvironment X (YMap es) options parentPath environment =
     addYAMLNodes_loop X es (options_list options) options parentPath environment"
  by (simp add: addYAMLNodesToEnvironment.simps getAllOptions_def isOK_Status_OK)

text \<open>The definitions that evaluating a run on a concrete input unfolds.\<close>

lemmas run_defs =
  run_def parseCommandLine_def getBoostOptions_def getBoostPositionalOptions_def
  isOK_def Status_OK_def addBoostVariablesToEnvironment_def getAllOptions_def long_name_of_def
  Environment_set_def checked_update_def Environment0_def configStage_def Environment_get_def
  lookup_def Value_get_string_def Value_get_bool_def parseYAMLConfigFile_def isYAMLConfig_def
  addYAMLLeaf_def YAMLNodeToValue_def dottedNameOf_def composeStage_def addCompositions_def
  Environment_get_StringVector_def Value_get_StringVector_def layerStage_def
  addDefaultValues_def getDefaults_def Environment_setAll_def addConstraints_def
  getConstraints_def Environment_setDefault_def Environment_addConstraint_def
  fixed_collaborators_def plain_option_def plain_section_def example_section_def
  addYAMLNodesToEnvironment.simps Let_def

section \<open>The boolean branch of the YAML conversion\<close>

lemma getExpectedType_boolean:
  assumes "\<forall>od' \<in> set ods. dottedName od' = key \<and> SourceYAMLConfig \<in> sources od'
             \<longrightarrow> optionType od' = Bool \<or> optionType od' = Switch"
    and "(fst acc \<and> (snd acc = Bool \<or> snd acc = Switch))
         \<or> (\<exists>od \<in> set ods. dottedName od = key \<and> SourceYAMLConfig \<in> sources od)"
  shows "getExpectedType ods key acc = (True, Bool) \<or> getExpectedType ods key acc = (True, Switch)"
  using assms
proof (induction ods arbitrary: acc)
  case Nil
  then show ?case by (cases acc) auto
next
  case (Cons od ods)
  show ?case
  proof (cases "key = dottedName od \<and> SourceYAMLConfig \<in> sources od")
    case True
    with Cons.prems(1) have "optionType od = Bool \<or> optionType od = Switch" by simp
    with True Cons.prems(1) show ?thesis
      using Cons.IH [of "(True, optionType od)"] by auto
  next
    case False
    with Cons.prems show ?thesis
      using Cons.IH [of acc] by auto
  qed
qed

text \<open>
  C6: for a key that the schema registers for the YAML source with type \<open>Bool\<close> or
  \<open>Switch\<close>, the scalar \<open>true\<close> converts to \<open>Value(true)\<close>, the scalar \<open>false\<close> ends in
  the error branch with \<open>BadValue\<close>, and no node at all converts to \<open>Value(false)\<close>: the
  test that guards the false branch repeats the literal \<open>true\<close>.
\<close>

theorem yaml_boolean_scalar:
  assumes "od \<in> set options_vector" and "dottedName od = key"
    and "SourceYAMLConfig \<in> sources od"
    and "\<forall>od' \<in> set options_vector. dottedName od' = key \<and> SourceYAMLConfig \<in> sources od'
           \<longrightarrow> optionType od' = Bool \<or> optionType od' = Switch"
  shows "YAMLNodeToValue X (YScalar ''true'') options_vector key = Inr (BoolValue True)
       \<and> YAMLNodeToValue X (YScalar ''false'') options_vector key =
           Inl (Status BadValue (''Expected boolean but found string: false for option: '' @ key))
       \<and> (\<forall>node. YAMLNodeToValue X node options_vector key \<noteq> Inr (BoolValue False))"
proof -
  have "getExpectedType options_vector key (False, Bool) = (True, Bool)
      \<or> getExpectedType options_vector key (False, Bool) = (True, Switch)"
    using assms by (intro getExpectedType_boolean) auto
  then show ?thesis
    by (auto simp: YAMLNodeToValue_def Let_def split: if_splits)
qed

theorem yaml_boolean_scalar_witness:
  "plain_option ''journal'' Switch False \<in> set [plain_option ''journal'' Switch False]
   \<and> dottedName (plain_option ''journal'' Switch False) = ''journal''
   \<and> SourceYAMLConfig \<in> sources (plain_option ''journal'' Switch False)
   \<and> YAMLNodeToValue (fixed_collaborators (po_error []) (po_error []) [] (loaded YNull))
        (YScalar ''true'') [plain_option ''journal'' Switch False] ''journal''
       = Inr (BoolValue True)
   \<and> YAMLNodeToValue (fixed_collaborators (po_error []) (po_error []) [] (loaded YNull))
        (YScalar ''false'') [plain_option ''journal'' Switch False] ''journal''
       = Inl (Status BadValue ''Expected boolean but found string: false for option: journal'')"
  using yaml_boolean_scalar [of "plain_option ''journal'' Switch False"
      "[plain_option ''journal'' Switch False]" "''journal''"
      "fixed_collaborators (po_error []) (po_error []) [] (loaded YNull)"]
  by (simp add: plain_option_def)

section \<open>The root of a YAML document\<close>

text \<open>
  C8: at the top level (empty parent path) a root that is neither a mapping nor null
  is rejected with \<open>BadValue\<close> and the message \<open>No map found at top level of YAML config\<close>,
  the Environment untouched; a null root returns OK and leaves the fresh Environment
  empty.
\<close>

theorem yaml_top_level:
  "(\<not> IsMap root \<and> \<not> IsNull root \<longrightarrow>
      addYAMLNodesToEnvironment X root options [] environment =
        (Status BadValue ''No map found at top level of YAML config'', environment))
   \<and> addYAMLNodesToEnvironment X YNull options [] Environment0 = (Status_OK, Environment0)"
  by (simp add: addYAMLNodesToEnvironment.simps getAllOptions_def isOK_Status_OK)

theorem yaml_top_level_witness:
  "\<not> IsMap (YSequence [YScalar ''a'']) \<and> \<not> IsNull (YSequence [YScalar ''a''])
   \<and> addYAMLNodesToEnvironment (fixed_collaborators (po_error []) (po_error []) [] (loaded YNull))
        (YSequence [YScalar ''a'']) (plain_section []) [] Environment0 =
        (Status BadValue ''No map found at top level of YAML config'', Environment0)"
  using yaml_top_level [of "YSequence [YScalar ''a'']"
      "fixed_collaborators (po_error []) (po_error []) [] (loaded YNull)"
      "plain_section []" Environment0]
  by simp

section \<open>YAML or INI\<close>

text \<open>
  C9: when the config file named on the command line has been read and the YAML
  parser has returned a root node, \<open>run\<close> fills the config Environment with the INI
  adapter if the root is a scalar, and with the YAML adapter for every other root.
\<close>

theorem config_file_classification:
  assumes "Environment_get ''config'' commandLineEnvironment = Inr (StringValue config_filename)"
    and "readConfigFile X config_filename = (ret, config_file)" and "isOK ret"
    and "YAML_Load X config_file = loaded root"
  shows "configStage X options commandLineEnvironment =
           (if IsScalar root then parseINIConfigFile X options config_file Environment0
            else addYAMLNodesToEnvironment X root options [] Environment0)"
  using assms
  by (simp add: configStage_def Value_get_string_def parseYAMLConfigFile_def isYAMLConfig_def)

theorem config_file_classification_witness:
  "Environment_get ''config''
      (Environment0\<lparr>env_values := [''config'' \<mapsto> StringValue ''mongod.conf'']\<rparr>)
     = Inr (StringValue ''mongod.conf'')
   \<and> readConfigFile
        (fixed_collaborators (po_error []) (po_error []) ''foo=bar'' (loaded (YScalar ''foo=bar'')))
        ''mongod.conf'' = (Status_OK, ''foo=bar'')
   \<and> isOK Status_OK
   \<and> YAML_Load
        (fixed_collaborators (po_error []) (po_error []) ''foo=bar'' (loaded (YScalar ''foo=bar'')))
        ''foo=bar'' = loaded (YScalar ''foo=bar'')
   \<and> configStage
        (fixed_collaborators (po_error []) (po_error []) ''foo=bar'' (loaded (YScalar ''foo=bar'')))
        (plain_section [])
        (Environment0\<lparr>env_values := [''config'' \<mapsto> StringValue ''mongod.conf'']\<rparr>)
     = parseINIConfigFile
        (fixed_collaborators (po_error []) (po_error []) ''foo=bar'' (loaded (YScalar ''foo=bar'')))
        (plain_section []) ''foo=bar'' Environment0"
  using config_file_classification
    [of "Environment0\<lparr>env_values := [''config'' \<mapsto> StringValue ''mongod.conf'']\<rparr>"
      "''mongod.conf''"
      "fixed_collaborators (po_error []) (po_error []) ''foo=bar'' (loaded (YScalar ''foo=bar''))"
      Status_OK "''foo=bar''" "YScalar ''foo=bar''" "plain_section []"]
  by (simp add: Environment_get_def lookup_def Environment0_def fixed_collaborators_def
        isOK_Status_OK)

section \<open>Switches on the command line\<close>

lemma addBoostVariables_loop_switch:
  assumes "addBoostVariables_loop vm ods env = (ret, env')"
    and "isOK ret" and "\<not> valid env"
    and "\<forall>od' \<in> set ods. dottedName od' = dottedName od \<longrightarrow> od' = od"
    and "optionType od = Switch"
    and "long_name_of (singleName od) = Inr n" and "vm n = Some (any_bool b)"
  shows "env_values env' (dottedName od) =
           (if od \<in> set ods \<and> b then Some (BoolValue True) else env_values env (dottedName od))
         \<and> default_values env' = default_values env \<and> \<not> valid env'"
  using assms(1,3,4)
proof (induction ods arbitrary: env)
  case Nil
  then show ?case by simp
next
  case (Cons od' ods)
  have rest: "\<forall>x \<in> set ods. dottedName x = dottedName od \<longrightarrow> x = od"
    using Cons.prems(3) by simp
  show ?case
  proof (cases "od' = od")
    case True
    show ?thesis
    proof (cases b)
      case True
      with \<open>od' = od\<close> Cons.prems(1,2) assms(5-7)
      have "addBoostVariables_loop vm ods
              (env\<lparr>env_values := (env_values env)(dottedName od \<mapsto> BoolValue True)\<rparr>) = (ret, env')"
        by (simp add: Value_get_bool_def Environment_set_fresh)
      from Cons.IH [OF this _ rest] True \<open>od' = od\<close> Cons.prems(2) show ?thesis by simp
    next
      case False
      with \<open>od' = od\<close> Cons.prems(1) assms(5-7)
      have "addBoostVariables_loop vm ods env = (ret, env')"
        by (simp add: Value_get_bool_def)
      from Cons.IH [OF this Cons.prems(2) rest] False show ?thesis by simp
    qed
  next
    case False
    with Cons.prems(3) have ne: "dottedName od' \<noteq> dottedName od" by auto
    from Cons.prems(1) assms(2) consider
        "addBoostVariables_loop vm ods env = (ret, env')"
      | v where "addBoostVariables_loop vm ods
                   (env\<lparr>env_values := (env_values env)(dottedName od' \<mapsto> v)\<rparr>) = (ret, env')"
      by (auto simp: Environment_set_fresh [OF Cons.prems(2)]
               dest: long_name_of_error boostAnyToValue_error Value_get_bool_error
               split: sum.splits option.splits if_splits)
    then show ?thesis
    proof cases
      case 1
      from Cons.IH [OF this Cons.prems(2) rest] False show ?thesis by simp
    next
      case 2
      from Cons.IH [OF this _ rest] False ne Cons.prems(2) show ?thesis by simp
    qed
  qed
qed

text \<open>
  C10: let the command line parse succeed, and let the schema hold one option of type
  \<open>Switch\<close> under its dotted name, for whose long name the parser has stored a boolean.
  If the boolean is false the command line Environment has no entry for the key (a
  read returns \<open>NoSuchKey\<close>); if it is true the entry is \<open>Value(true)\<close>.
\<close>

theorem switch_false_not_recorded:
  assumes "command_line_parser X options argv = stored vm"
    and "parseCommandLine X options argv Environment0 = (ret, commandLineEnvironment)"
    and "isOK ret"
    and "od \<in> set (options_list options)" and "optionType od = Switch"
    and "\<forall>od' \<in> set (options_list options). dottedName od' = dottedName od \<longrightarrow> od' = od"
    and "long_name_of (singleName od) = Inr long_name" and "vm long_name = Some (any_bool b)"
  shows "Environment_get (dottedName od) commandLineEnvironment =
           (if b then Inr (BoolValue True)
            else Inl (Status NoSuchKey (''Value not found for key: '' @ dottedName od)))"
proof -
  obtain r where loop:
      "addBoostVariables_loop vm (options_list options) Environment0 = (r, commandLineEnvironment)"
    and r: "isOK r"
    using assms(1-3)
    by (auto simp: parseCommandLine_def getBoostOptions_def getBoostPositionalOptions_def
          isOK_Status_OK addBoostVariablesToEnvironment_def getAllOptions_def
          split: prod.splits if_splits)
  have "\<not> valid Environment0" by (simp add: Environment0_def)
  from addBoostVariables_loop_switch [OF loop r this assms(6,5,7,8)] assms(4)
  show ?thesis
    by (simp add: Environment_get_def lookup_def Environment0_def)
qed


theorem switch_false_not_recorded_witness:
  "command_line_parser
      (fixed_collaborators (stored [''journal'' \<mapsto> any_bool False]) (po_error []) [] (loaded YNull))
      (plain_section [plain_option ''journal'' Switch False]) [''mongod'', ''--journal=false'']
     = stored [''journal'' \<mapsto> any_bool False]
   \<and> parseCommandLine
        (fixed_collaborators (stored [''journal'' \<mapsto> any_bool False]) (po_error []) [] (loaded YNull))
        (plain_section [plain_option ''journal'' Switch False]) [''mongod'', ''--journal=false'']
        Environment0
     = (Status_OK, Environment0)
   \<and> isOK Status_OK
   \<and> plain_option ''journal'' Switch False
        \<in> set (options_list (plain_section [plain_option ''journal'' Switch False]))
   \<and> optionType (plain_option ''journal'' Switch False) = Switch
   \<and> long_name_of (singleName (plain_option ''journal'' Switch False)) = Inr ''journal''
   \<and> [''journal'' \<mapsto> any_bool False] ''journal'' = Some (any_bool False)
   \<and> Environment_get (dottedName (plain_option ''journal'' Switch False)) Environment0
     = Inl (Status NoSuchKey ''Value not found for key: journal'')"
  using switch_false_not_recorded
    [of "fixed_collaborators (stored [''journal'' \<mapsto> any_bool False]) (po_error []) []
           (loaded YNull)"
      "plain_section [plain_option ''journal'' Switch False]"
      "[''mongod'', ''--journal=false'']" "[''journal'' \<mapsto> any_bool False]"
      Status_OK Environment0 "plain_option ''journal'' Switch False" "''journal''" False]
  by (simp add: fixed_collaborators_def plain_section_def plain_option_def parseCommandLine_def
        getBoostOptions_def getBoostPositionalOptions_def isOK_Status_OK
        addBoostVariablesToEnvironment_def getAllOptions_def long_name_of_def
        Value_get_bool_def)

section \<open>Errors below the top level of a YAML document\<close>

lemma addYAMLNodes_loop_append:
  "addYAMLNodes_loop X (before @ after) ov options parentPath environment =
     (case addYAMLNodes_loop X before ov options parentPath environment of
        (ret, environment') \<Rightarrow>
          if \<not> isOK ret then (ret, environment')
          else addYAMLNodes_loop X after ov options parentPath environment')"
proof (induction before arbitrary: environment)
  case Nil
  then show ?case by (simp add: isOK_Status_OK)
next
  case (Cons e before)
  obtain fieldName YAMLNode where e: "e = (fieldName, YAMLNode)" by (cases e)
  show ?case
    by (simp add: e Cons.IH Let_def split: prod.splits)
qed

lemma addYAMLLeaf_error:
  assumes "addYAMLLeaf X YAMLNode ov key environment = (ret, environment')" and "\<not> isOK ret"
  shows "environment' = environment"
  using assms
  by (auto simp: addYAMLLeaf_def Environment_set_def checked_update_def Let_def isOK_Status_OK
           split: sum.splits if_splits)

lemma addYAMLNodes_loop_error:
  assumes "addYAMLNodes_loop X es ov options parentPath environment = (ret, environment')"
    and "\<not> isOK ret"
  shows "\<exists>before bad after. es = before @ bad # after \<and> \<not> IsMap (snd bad)
           \<and> addYAMLNodes_loop X before ov options parentPath environment
               = (Status_OK, environment')"
  using assms
proof (induction es arbitrary: environment)
  case Nil
  then show ?case by (simp add: isOK_Status_OK)
next
  case (Cons e es)
  obtain fieldName YAMLNode where e: "e = (fieldName, YAMLNode)" by (cases e)
  show ?case
  proof (cases "IsMap YAMLNode")
    case True
    let ?env = "snd (addYAMLNodesToEnvironment X YAMLNode options
                       (dottedNameOf parentPath fieldName) environment)"
    from Cons.prems True e
    have "addYAMLNodes_loop X es ov options parentPath ?env = (ret, environment')"
      by (simp add: Let_def)
    from Cons.IH [OF this Cons.prems(2)] obtain before bad after where
      "es = before @ bad # after" "\<not> IsMap (snd bad)"
      "addYAMLNodes_loop X before ov options parentPath ?env = (Status_OK, environment')"
      by blast
    then have "e # es = (e # before) @ bad # after \<and> \<not> IsMap (snd bad)
        \<and> addYAMLNodes_loop X (e # before) ov options parentPath environment
            = (Status_OK, environment')"
      using True e by (simp add: Let_def)
    then show ?thesis by blast
  next
    case False
    obtain r env1 where leaf:
      "addYAMLLeaf X YAMLNode ov (dottedNameOf parentPath fieldName) environment = (r, env1)"
      by (cases "addYAMLLeaf X YAMLNode ov (dottedNameOf parentPath fieldName) environment")
    show ?thesis
    proof (cases "isOK r")
      case True
      with Cons.prems False e leaf
      have "addYAMLNodes_loop X es ov options parentPath env1 = (ret, environment')"
        by (simp add: Let_def)
      from Cons.IH [OF this Cons.prems(2)] obtain before bad after where
        "es = before @ bad # after" "\<not> IsMap (snd bad)"
        "addYAMLNodes_loop X before ov options parentPath env1 = (Status_OK, environment')"
        by blast
      then have "e # es = (e # before) @ bad # after \<and> \<not> IsMap (snd bad)
          \<and> addYAMLNodes_loop X (e # before) ov options parentPath environment
              = (Status_OK, environment')"
        using True False e leaf by (simp add: Let_def)
      then show ?thesis by blast
    next
      case r: False
      with Cons.prems False e leaf have "ret = r" "environment' = env1"
        by (simp_all add: Let_def)
      moreover from addYAMLLeaf_error [OF leaf r] have "env1 = environment" .
      ultimately have "e # es = [] @ e # es \<and> \<not> IsMap (snd e)
          \<and> addYAMLNodes_loop X [] ov options parentPath environment
              = (Status_OK, environment')"
        using False e by simp
      then show ?thesis by blast
    qed
  qed
qed

lemma addYAMLLeaf_grows:
  assumes "addYAMLLeaf X YAMLNode ov key environment = (ret, environment')"
  shows "env_values environment \<subseteq>\<^sub>m env_values environment'"
proof -
  have "env_values environment \<subseteq>\<^sub>m (env_values environment)(key \<mapsto> v)"
    if "Environment_get key environment = Inl e" for v e
  proof -
    from that have "env_values environment key = None"
      by (auto simp: Environment_get_def lookup_def split: option.splits)
    then show ?thesis by (auto simp: map_le_def)
  qed
  with assms show ?thesis
    by (auto simp: addYAMLLeaf_def Environment_set_def checked_update_def Let_def
             split: sum.splits if_splits)
qed

lemma addYAMLNodes_grow:
  "env_values environment \<subseteq>\<^sub>m
     env_values (snd (addYAMLNodesToEnvironment X root options parentPath environment))"
  "env_values environment \<subseteq>\<^sub>m
     env_values (snd (addYAMLNodes_loop X es ov options parentPath environment))"
proof (induction X root options parentPath environment and X es ov options parentPath environment
       rule: addYAMLNodesToEnvironment_addYAMLNodes_loop.induct)
  case (1 X root options parentPath environment)
  then show ?case
    by (simp add: addYAMLNodesToEnvironment.simps getAllOptions_def isOK_Status_OK)
next
  case (2 X ov options parentPath environment)
  show ?case by simp
next
  case (3 X fieldName YAMLNode rest ov options parentPath environment)
  show ?case
  proof (cases "IsMap YAMLNode")
    case True
    with 3(1,2) [OF refl True] show ?thesis
      by (auto simp: Let_def intro: map_le_trans)
  next
    case False
    obtain r env1 where leaf:
      "addYAMLLeaf X YAMLNode ov (dottedNameOf parentPath fieldName) environment = (r, env1)"
      by (cases "addYAMLLeaf X YAMLNode ov (dottedNameOf parentPath fieldName) environment")
    note g = addYAMLLeaf_grows [OF leaf]
    show ?thesis
    proof (cases "isOK r")
      case True
      with 3(3) [OF refl False leaf [symmetric]] False leaf g show ?thesis
        by (auto simp: Let_def intro: map_le_trans)
    next
      case r: False
      with False leaf g show ?thesis by (simp add: Let_def)
    qed
  qed
qed

lemma nested_error_continues:
  assumes "addYAMLNodesToEnvironment X (YMap before) options parentPath environment0
             = (Status_OK, environment)"
    and "addYAMLNodesToEnvironment X (YMap sub) options (dottedNameOf parentPath fieldName)
             environment = (ret, environment')"
  shows "addYAMLNodesToEnvironment X (YMap (before @ (fieldName, YMap sub) # after)) options
             parentPath environment0
           = addYAMLNodesToEnvironment X (YMap after) options parentPath environment'"
  using assms
  by (simp add: addYAMLNodes_loop_append addYAMLNodes_map isOK_Status_OK Let_def)

text \<open>
  C4, as the code has it: the Status of the call for a nested mapping is dropped. Let
  the entries \<open>before\<close> of a mapping have been added without error, let the call for the
  next entry, the mapping \<open>sub\<close> under \<open>fieldName\<close>, return an error and the Environment
  \<open>environment'\<close>, and let the entries \<open>after\<close> be added to \<open>environment'\<close> without error.
  Then the call for the enclosing mapping (the adapter, at the empty path) returns OK.
  The Environment it returns contains what was set before the failure: the entries
  of \<open>before\<close> and those that \<open>sub\<close> itself set before its failing entry, a node that is
  not a mapping; and it contains what \<open>after\<close> set. The failing entry and the entries
  after it in \<open>sub\<close> set nothing.
\<close>

theorem nested_error_kept_prefix:
  assumes "addYAMLNodesToEnvironment X (YMap before) options parentPath environment0
             = (Status_OK, environment)"
    and "addYAMLNodesToEnvironment X (YMap sub) options (dottedNameOf parentPath fieldName)
             environment = (ret, environment')"
    and "\<not> isOK ret"
    and "addYAMLNodesToEnvironment X (YMap after) options parentPath environment'
             = (Status_OK, final)"
  shows "addYAMLNodesToEnvironment X (YMap (before @ (fieldName, YMap sub) # after)) options
             parentPath environment0 = (Status_OK, final)
       \<and> (\<exists>kept bad skipped. sub = kept @ bad # skipped \<and> \<not> IsMap (snd bad)
            \<and> addYAMLNodesToEnvironment X (YMap kept) options
                 (dottedNameOf parentPath fieldName) environment = (Status_OK, environment'))
       \<and> env_values environment0 \<subseteq>\<^sub>m env_values environment
       \<and> env_values environment \<subseteq>\<^sub>m env_values environment'
       \<and> env_values environment' \<subseteq>\<^sub>m env_values final"
proof -
  from nested_error_continues [OF assms(1,2)] assms(4)
  have "addYAMLNodesToEnvironment X (YMap (before @ (fieldName, YMap sub) # after)) options
          parentPath environment0 = (Status_OK, final)"
    by simp
  moreover
  from assms(2) have "addYAMLNodes_loop X sub (options_list options) options
      (dottedNameOf parentPath fieldName) environment = (ret, environment')"
    by (simp add: addYAMLNodes_map)
  from addYAMLNodes_loop_error [OF this assms(3)]
  have "\<exists>kept bad skipped. sub = kept @ bad # skipped \<and> \<not> IsMap (snd bad)
            \<and> addYAMLNodesToEnvironment X (YMap kept) options
                 (dottedNameOf parentPath fieldName) environment = (Status_OK, environment')"
    by (simp add: addYAMLNodes_map)
  moreover
  from addYAMLNodes_grow(1) [of environment0 X "YMap before" options parentPath] assms(1)
  have "env_values environment0 \<subseteq>\<^sub>m env_values environment" by simp
  moreover
  from addYAMLNodes_grow(1) [of environment X "YMap sub" options
         "dottedNameOf parentPath fieldName"] assms(2)
  have "env_values environment \<subseteq>\<^sub>m env_values environment'" by simp
  moreover
  from addYAMLNodes_grow(1) [of environment' X "YMap after" options parentPath] assms(4)
  have "env_values environment' \<subseteq>\<^sub>m env_values final" by simp
  ultimately show ?thesis by blast
qed

text \<open>
  The document
  \<^verbatim>\<open>storage: {dbPath: /data, journal: on, engine: mmap}
port: 1\<close>
  with \<open>storage.journal\<close> not in the schema: the call for \<open>storage\<close> fails at \<open>journal\<close>,
  and the document is accepted with \<open>storage.dbPath\<close> and \<open>port\<close> set.
\<close>

theorem nested_error_kept_prefix_witness:
  "addYAMLNodesToEnvironment merge_collaborators (YMap []) example_section [] Environment0
     = (Status_OK, Environment0)
   \<and> addYAMLNodesToEnvironment merge_collaborators
        (YMap [(''dbPath'', YScalar ''/data''), (''journal'', YScalar ''on''),
               (''engine'', YScalar ''mmap'')])
        example_section (dottedNameOf [] ''storage'') Environment0
     = (Status BadValue ''Unrecognized option: storage.journal'',
        Environment0\<lparr>env_values := [''storage.dbPath'' \<mapsto> StringValue ''/data'']\<rparr>)
   \<and> \<not> isOK (Status BadValue ''Unrecognized option: storage.journal'')
   \<and> addYAMLNodesToEnvironment merge_collaborators (YMap [(''port'', YScalar ''1'')])
        example_section []
        (Environment0\<lparr>env_values := [''storage.dbPath'' \<mapsto> StringValue ''/data'']\<rparr>)
     = (Status_OK,
        Environment0\<lparr>env_values := [''storage.dbPath'' \<mapsto> StringValue ''/data'',
                                    ''port'' \<mapsto> StringValue ''1'']\<rparr>)
   \<and> addYAMLNodesToEnvironment merge_collaborators
        (YMap ([] @ (''storage'',
                     YMap [(''dbPath'', YScalar ''/data''), (''journal'', YScalar ''on''),
                           (''engine'', YScalar ''mmap'')])
                  # [(''port'', YScalar ''1'')]))
        example_section [] Environment0
     = (Status_OK,
        Environment0\<lparr>env_values := [''storage.dbPath'' \<mapsto> StringValue ''/data'',
                                    ''port'' \<mapsto> StringValue ''1'']\<rparr>)"
  using nested_error_kept_prefix
    [of merge_collaborators "[]" example_section "[]" Environment0 Environment0
      "[(''dbPath'', YScalar ''/data''), (''journal'', YScalar ''on''),
        (''engine'', YScalar ''mmap'')]"
      "''storage''" "Status BadValue ''Unrecognized option: storage.journal''"
      "Environment0\<lparr>env_values := [''storage.dbPath'' \<mapsto> StringValue ''/data'']\<rparr>"
      "[(''port'', YScalar ''1'')]"
      "Environment0\<lparr>env_values := [''storage.dbPath'' \<mapsto> StringValue ''/data'',
                                    ''port'' \<mapsto> StringValue ''1'']\<rparr>"]
  by (simp add: run_defs)

text \<open>
  C4 with its last clause does not hold: in the document
  \<^verbatim>\<open>storage: {dbPath: /data, journal: on}\<close>
  the call for \<open>storage\<close> fails at \<open>journal\<close> and nothing lies outside that mapping, yet
  the Environment returned with OK is not empty: it holds \<open>storage.dbPath\<close>, set inside
  the failed mapping.
\<close>

theorem failed_subtree_entry_counterexample:
  "\<not> isOK (fst (addYAMLNodesToEnvironment merge_collaborators
                   (YMap [(''dbPath'', YScalar ''/data''), (''journal'', YScalar ''on'')])
                   example_section ''storage'' Environment0))
   \<and> addYAMLNodesToEnvironment merge_collaborators
        (YMap [(''storage'',
                YMap [(''dbPath'', YScalar ''/data''), (''journal'', YScalar ''on'')])])
        example_section [] Environment0
     = (Status_OK,
        Environment0\<lparr>env_values := [''storage.dbPath'' \<mapsto> StringValue ''/data'']\<rparr>)
   \<and> Environment_get ''storage.dbPath''
        (snd (addYAMLNodesToEnvironment merge_collaborators
                (YMap [(''storage'',
                        YMap [(''dbPath'', YScalar ''/data''), (''journal'', YScalar ''on'')])])
                example_section [] Environment0))
     = Inr (StringValue ''/data'')"
  by (simp add: run_defs)

text \<open>
  C7 does not hold of the code. The scalar leaf \<open>journal\<close> is not in the schema. At
  the top level the adapter rejects it with \<open>BadValue\<close> (\<open>Unrecognized option\<close>); inside
  the mapping \<open>storage\<close> the same leaf is rejected by the nested call only, whose Status
  is dropped, and the adapter returns OK with nothing set.
\<close>

theorem nested_unrecognized_option:
  "addYAMLNodesToEnvironment merge_collaborators
      (YMap [(''storage'', YMap [(''journal'', YScalar ''on'')])]) example_section []
      Environment0 = (Status_OK, Environment0)
   \<and> addYAMLNodesToEnvironment merge_collaborators
      (YMap [(''journal'', YScalar ''on'')]) example_section []
      Environment0 = (Status BadValue ''Unrecognized option: journal'', Environment0)"
  by (simp add: run_defs)

text \<open>
  C5 does not hold of the code. The key \<open>storage.dbPath\<close> is produced twice in each
  of three documents. When the second one comes from a nested mapping (after another
  nested mapping, or after the top-level field \<open>storage.dbPath\<close>), the duplicate is
  found by the nested call, whose Status is dropped: the adapter returns OK and keeps
  the first value. When the second one is a top-level field, the adapter fails with
  \<open>BadValue\<close>, and the message reads \<open>duplcate key\<close>.
\<close>

theorem nested_duplicate_key:
  "addYAMLNodesToEnvironment merge_collaborators
      (YMap [(''storage'', YMap [(''dbPath'', YScalar ''/a'')]),
             (''storage'', YMap [(''dbPath'', YScalar ''/b'')])])
      example_section [] Environment0
     = (Status_OK, Environment0\<lparr>env_values := [''storage.dbPath'' \<mapsto> StringValue ''/a'']\<rparr>)
   \<and> addYAMLNodesToEnvironment merge_collaborators
      (YMap [(''storage.dbPath'', YScalar ''/a''),
             (''storage'', YMap [(''dbPath'', YScalar ''/b'')])])
      example_section [] Environment0
     = (Status_OK, Environment0\<lparr>env_values := [''storage.dbPath'' \<mapsto> StringValue ''/a'']\<rparr>)
   \<and> addYAMLNodesToEnvironment merge_collaborators
      (YMap [(''storage'', YMap [(''dbPath'', YScalar ''/b'')]),
             (''storage.dbPath'', YScalar ''/a'')])
      example_section [] Environment0
     = (Status BadValue ''Error parsing YAML config: duplcate key: storage.dbPath'',
        Environment0\<lparr>env_values := [''storage.dbPath'' \<mapsto> StringValue ''/b'']\<rparr>)"
  by (simp add: run_defs)

section \<open>Composition\<close>

lemma addCompositions_loop_key:
  assumes "addCompositions_loop ods source dest = (ret, dest')"
    and "isOK ret" and "\<not> valid dest" and "default_values dest = Map.empty"
    and "env_values source k = Some (StringVectorValue sv)"
  shows "env_values dest' k =
           (if filter (\<lambda>od. isComposing od \<and> dottedName od = k) ods = [] then env_values dest k
            else Some (StringVectorValue (vector_at dest k @
                   concat (map (\<lambda>od. sv) (filter (\<lambda>od. isComposing od \<and> dottedName od = k) ods)))))
         \<and> \<not> valid dest' \<and> default_values dest' = Map.empty"
  using assms(1,3,4)
proof (induction ods arbitrary: dest)
  case Nil
  then show ?case by simp
next
  case (Cons od ods)
  show ?case
  proof (cases "isComposing od")
    case False
    with Cons.prems have "addCompositions_loop ods source dest = (ret, dest')" by simp
    from Cons.IH [OF this Cons.prems(2,3)] False show ?thesis by simp
  next
    case True
    show ?thesis
    proof (cases "dottedName od = k")
      case k: True
      from Cons.prems(1) True k assms(2,5) Cons.prems(2,3)
      have step: "addCompositions_loop ods source
               (dest\<lparr>env_values := (env_values dest)(k \<mapsto>
                  StringVectorValue (vector_at dest k @ sv))\<rparr>) = (ret, dest')"
        by (auto simp: Environment_get_StringVector_def Environment_get_def lookup_def
              Value_get_StringVector_def Environment_set_fresh vector_at_def isOK_def
              split: option.splits Value.splits if_splits sum.splits)
      from Cons.IH [OF step] Cons.prems(2,3) True k show ?thesis
        by (simp add: vector_at_def)
    next
      case nk: False
      from Cons.prems(1) True assms(2) Cons.prems(2,3) consider
          "addCompositions_loop ods source dest = (ret, dest')"
        | v where "addCompositions_loop ods source
                     (dest\<lparr>env_values := (env_values dest)(dottedName od \<mapsto> v)\<rparr>) = (ret, dest')"
        by (auto simp: Environment_set_fresh isOK_def split: sum.splits if_splits)
      then show ?thesis
      proof cases
        case 1
        from Cons.IH [OF this Cons.prems(2,3)] True nk show ?thesis by simp
      next
        case 2
        from Cons.IH [OF this] Cons.prems(2,3) True nk show ?thesis
          by (simp add: vector_at_def)
      qed
    qed
  qed
qed

lemma addCompositions_loop_other:
  assumes "addCompositions_loop ods source dest = (ret, dest')"
    and "\<not> valid dest"
    and "\<forall>od \<in> set ods. dottedName od = k \<longrightarrow> \<not> isComposing od"
  shows "env_values dest' k = env_values dest k \<and> \<not> valid dest'"
  using assms
proof (induction ods arbitrary: dest)
  case Nil
  then show ?case by simp
next
  case (Cons od ods)
  from Cons.prems(3) have rest: "\<forall>od \<in> set ods. dottedName od = k \<longrightarrow> \<not> isComposing od"
    by simp
  from Cons.prems(1,2) consider
      "ret = fst (addCompositions_loop (od # ods) source dest)" "dest' = dest"
    | "addCompositions_loop ods source dest = (ret, dest')"
    | v where "isComposing od" "addCompositions_loop ods source
                 (dest\<lparr>env_values := (env_values dest)(dottedName od \<mapsto> v)\<rparr>) = (ret, dest')"
    by (auto simp: Environment_set_fresh isOK_Status_OK split: sum.splits if_splits)
  then show ?case
  proof cases
    case 1
    with Cons.prems(2) show ?thesis by simp
  next
    case 2
    from Cons.IH [OF this Cons.prems(2) rest] show ?thesis .
  next
    case 3
    with Cons.prems(3) have "dottedName od \<noteq> k" by auto
    with Cons.IH [OF 3(2) _ rest] Cons.prems(2) show ?thesis by simp
  qed
qed

lemma addDefaultValues_loop_values:
  "addDefaultValues_loop ds env = (ret, env') \<Longrightarrow>
     ret = Status_OK \<and> env_values env' = env_values env \<and> valid env' = valid env
     \<and> constraints env' = constraints env"
proof (induction ds arbitrary: env)
  case Nil
  then show ?case by simp
next
  case (Cons d ds)
  obtain k v where d: "d = (k, v)" by (cases d)
  from Cons.prems d
  have "addDefaultValues_loop ds (env\<lparr>default_values := (default_values env)(k \<mapsto> v)\<rparr>)
          = (ret, env')"
    by (simp add: Environment_setDefault_def isOK_Status_OK)
  from Cons.IH [OF this] show ?case by simp
qed

lemma addConstraints_values:
  "addConstraints options env = (ret, env') \<Longrightarrow>
     ret = Status_OK \<and> env_values env' = env_values env \<and> default_values env' = default_values env"
proof -
  have "env_values (foldl (\<lambda>d c. Environment_addConstraint c d) env cs) = env_values env
      \<and> default_values (foldl (\<lambda>d c. Environment_addConstraint c d) env cs) = default_values env"
    for cs
    by (induction cs arbitrary: env) (simp_all add: Environment_addConstraint_def)
  then show "addConstraints options env = (ret, env') \<Longrightarrow>
     ret = Status_OK \<and> env_values env' = env_values env \<and> default_values env' = default_values env"
    by (auto simp: addConstraints_def getConstraints_def isOK_Status_OK)
qed

lemma layerStage_values:
  assumes "layerStage options cfg cl composed environment = (ret, final)" and "isOK ret"
  shows "env_values final =
           env_values environment ++ env_values cfg ++ env_values cl ++ env_values composed"
proof -
  obtain r1 e1 where d: "addDefaultValues options environment = (r1, e1)"
    by (cases "addDefaultValues options environment")
  then have e1: "r1 = Status_OK" "env_values e1 = env_values environment"
    using addDefaultValues_loop_values
    by (auto simp: addDefaultValues_def getDefaults_def isOK_Status_OK)
  obtain r2 e2 where s2: "Environment_setAll cfg e1 = (r2, e2)"
    by (cases "Environment_setAll cfg e1")
  obtain r3 e3 where s3: "Environment_setAll cl e2 = (r3, e3)"
    by (cases "Environment_setAll cl e2")
  obtain r4 e4 where s4: "Environment_setAll composed e3 = (r4, e4)"
    by (cases "Environment_setAll composed e3")
  obtain r5 e5 where s5: "addConstraints options e4 = (r5, e5)"
    by (cases "addConstraints options e4")
  from assms d e1 s2 s3 s4 s5
  have ok: "isOK r2" "isOK r3" "isOK r4" and fin: "final = e5"
    by (auto simp: layerStage_def isOK_Status_OK split: if_splits)
  from s2 ok(1) have "e2 = e1\<lparr>env_values := env_values e1 ++ env_values cfg\<rparr>"
    unfolding Environment_setAll_def by (rule checked_update_OK)
  moreover from s3 ok(2) have "e3 = e2\<lparr>env_values := env_values e2 ++ env_values cl\<rparr>"
    unfolding Environment_setAll_def by (rule checked_update_OK)
  moreover from s4 ok(3) have "e4 = e3\<lparr>env_values := env_values e3 ++ env_values composed\<rparr>"
    unfolding Environment_setAll_def by (rule checked_update_OK)
  moreover from addConstraints_values [OF s5] have "env_values e5 = env_values e4" by simp
  ultimately show ?thesis using fin e1(2) by simp
qed

lemma run_stages:
  assumes "run X options argv environment = (ret, final)" and "isOK ret"
    and "parseCommandLine X options argv Environment0 = (ret1, cl)"
    and "configStage X options cl = (ret2, cfg)"
  obtains retc composed where
    "composeStage options cl cfg = (retc, composed)" "isOK retc"
    "layerStage options cfg cl composed environment = (ret, final)"
  using assms
  by (cases "composeStage options cl cfg")
     (auto simp: run_def split: if_splits)

text \<open>
  C1, as the code has it: let \<open>run\<close> succeed, and let the key \<open>k\<close> be the dotted name of
  exactly one composing option. If the config Environment holds the vector \<open>fs\<close> for
  \<open>k\<close> and the command line Environment holds \<open>cs\<close>, the resolved Environment returns
  for \<open>k\<close> the command line elements followed by the config file elements, \<open>cs @ fs\<close>,
  each in its own order: \<open>run\<close> composes the command line first.
\<close>

theorem composition_order:
  assumes "parseCommandLine X options argv Environment0 = (ret1, commandLineEnvironment)"
    and "configStage X options commandLineEnvironment = (ret2, configEnvironment)"
    and "run X options argv environment = (ret, final)" and "isOK ret"
    and "filter (\<lambda>od. isComposing od \<and> dottedName od = k) (options_list options) = [od]"
    and "env_values configEnvironment k = Some (StringVectorValue fs)"
    and "env_values commandLineEnvironment k = Some (StringVectorValue cs)"
  shows "Environment_get k final = Inr (StringVectorValue (cs @ fs))"
proof -
  from assms(3,4,1,2) obtain retc composed where
    c: "composeStage options commandLineEnvironment configEnvironment = (retc, composed)"
      "isOK retc"
    and l: "layerStage options configEnvironment commandLineEnvironment composed environment
              = (ret, final)"
    by (rule run_stages)
  obtain r1 c1 where a1:
    "addCompositions_loop (options_list options) commandLineEnvironment Environment0 = (r1, c1)"
    by (cases "addCompositions_loop (options_list options) commandLineEnvironment Environment0")
  with c have r1: "isOK r1"
    and a2: "addCompositions_loop (options_list options) configEnvironment c1 = (retc, composed)"
    by (auto simp: composeStage_def addCompositions_def getAllOptions_def isOK_Status_OK
          split: if_splits)
  have fresh: "\<not> valid Environment0" "default_values Environment0 = Map.empty"
    "env_values Environment0 k = None"
    by (simp_all add: Environment0_def)
  from addCompositions_loop_key [OF a1 r1 fresh(1,2) assms(7)] assms(5) fresh(3)
  have c1: "env_values c1 k = Some (StringVectorValue cs)" "\<not> valid c1"
    "default_values c1 = Map.empty"
    by (simp_all add: vector_at_def)
  from addCompositions_loop_key [OF a2 c(2) c1(2,3) assms(6)] assms(5) c1(1)
  have "env_values composed k = Some (StringVectorValue (cs @ fs))"
    by (simp add: vector_at_def)
  with layerStage_values [OF l assms(4)] show ?thesis
    by (simp add: Environment_get_def lookup_def)
qed

theorem composition_order_witness:
  "isOK (fst (run merge_collaborators example_section merge_argv Environment0))
   \<and> env_values (snd (parseCommandLine merge_collaborators example_section merge_argv Environment0))
        ''setParameter'' = Some (StringVectorValue [''c1'', ''c2''])
   \<and> env_values
        (snd (configStage merge_collaborators example_section
               (snd (parseCommandLine merge_collaborators example_section merge_argv Environment0))))
        ''setParameter'' = Some (StringVectorValue [''f1'', ''f2''])
   \<and> Environment_get ''setParameter''
        (snd (run merge_collaborators example_section merge_argv Environment0))
       = Inr (StringVectorValue ([''c1'', ''c2''] @ [''f1'', ''f2'']))"
  using composition_order
    [of merge_collaborators example_section merge_argv
      "fst (parseCommandLine merge_collaborators example_section merge_argv Environment0)"
      "snd (parseCommandLine merge_collaborators example_section merge_argv Environment0)"
      "fst (configStage merge_collaborators example_section
               (snd (parseCommandLine merge_collaborators example_section merge_argv Environment0)))"
      "snd (configStage merge_collaborators example_section
               (snd (parseCommandLine merge_collaborators example_section merge_argv Environment0)))"
      Environment0
      "fst (run merge_collaborators example_section merge_argv Environment0)"
      "snd (run merge_collaborators example_section merge_argv Environment0)"
      "''setParameter''" "plain_option ''setParameter'' StringVector True"
      "[''f1'', ''f2'']" "[''c1'', ''c2'']"]
  by (simp add: run_defs merge_collaborators_def merge_argv_def)

text \<open>
  C1 with the config file first does not hold: in the run of \<open>merge_collaborators\<close> the config file gives
  \<open>[f1, f2]\<close> and the command line \<open>[c1, c2]\<close> for the composing key \<open>setParameter\<close>,
  \<open>run\<close> succeeds, and the resolved value is not the config file elements followed by
  the command line elements.
\<close>

theorem composition_order_counterexample:
  "isOK (fst (run merge_collaborators example_section merge_argv Environment0))
   \<and> env_values (snd (parseCommandLine merge_collaborators example_section merge_argv Environment0))
        ''setParameter'' = Some (StringVectorValue [''c1'', ''c2''])
   \<and> env_values
        (snd (configStage merge_collaborators example_section
               (snd (parseCommandLine merge_collaborators example_section merge_argv Environment0))))
        ''setParameter'' = Some (StringVectorValue [''f1'', ''f2''])
   \<and> Environment_get ''setParameter''
        (snd (run merge_collaborators example_section merge_argv Environment0))
       \<noteq> Inr (StringVectorValue ([''f1'', ''f2''] @ [''c1'', ''c2'']))"
  by (simp add: run_defs merge_collaborators_def merge_argv_def)

section \<open>Precedence\<close>

text \<open>
  C2: let \<open>run\<close> succeed and let no composing option have the dotted name \<open>k\<close>. If the
  command line Environment has a value for \<open>k\<close>, the resolved Environment returns it,
  whether or not the config Environment has one; if only the config Environment has a
  value, the resolved Environment returns that. This holds whatever default the schema
  gives \<open>k\<close>: a read returns the default only when no value is set.
\<close>

theorem command_line_overrides:
  assumes "parseCommandLine X options argv Environment0 = (ret1, commandLineEnvironment)"
    and "configStage X options commandLineEnvironment = (ret2, configEnvironment)"
    and "run X options argv environment = (ret, final)" and "isOK ret"
    and "\<forall>od \<in> set (options_list options). dottedName od = k \<longrightarrow> \<not> isComposing od"
  shows "(\<forall>v. env_values commandLineEnvironment k = Some v
              \<longrightarrow> Environment_get k final = Inr v)
       \<and> (\<forall>w. env_values commandLineEnvironment k = None
                \<and> env_values configEnvironment k = Some w
              \<longrightarrow> Environment_get k final = Inr w)"
proof -
  from assms(3,4,1,2) obtain retc composed where
    c: "composeStage options commandLineEnvironment configEnvironment = (retc, composed)"
      "isOK retc"
    and l: "layerStage options configEnvironment commandLineEnvironment composed environment
              = (ret, final)"
    by (rule run_stages)
  obtain r1 c1 where a1:
    "addCompositions_loop (options_list options) commandLineEnvironment Environment0 = (r1, c1)"
    by (cases "addCompositions_loop (options_list options) commandLineEnvironment Environment0")
  with c have a2:
    "addCompositions_loop (options_list options) configEnvironment c1 = (retc, composed)"
    by (auto simp: composeStage_def addCompositions_def getAllOptions_def isOK_Status_OK
          split: if_splits)
  have fresh: "\<not> valid Environment0" "env_values Environment0 k = None"
    by (simp_all add: Environment0_def)
  from addCompositions_loop_other [OF a1 fresh(1) assms(5)] fresh(2)
  have c1: "env_values c1 k = None" "\<not> valid c1" by simp_all
  from addCompositions_loop_other [OF a2 c1(2) assms(5)] c1(1)
  have "env_values composed k = None" by simp
  with layerStage_values [OF l assms(4)] show ?thesis
    by (auto simp: Environment_get_def lookup_def map_add_def split: option.splits)
qed

text \<open>
  In the run of \<open>merge_collaborators\<close> the schema gives \<open>port\<close> the default \<open>27017\<close>,
  the config file gives \<open>2\<close> and the command line \<open>1\<close>: the resolved value is \<open>1\<close>.
\<close>

theorem command_line_overrides_witness:
  "isOK (fst (run merge_collaborators example_section merge_argv Environment0))
   \<and> env_values (snd (parseCommandLine merge_collaborators example_section merge_argv Environment0))
        ''port'' = Some (StringValue ''1'')
   \<and> env_values
        (snd (configStage merge_collaborators example_section
               (snd (parseCommandLine merge_collaborators example_section merge_argv Environment0))))
        ''port'' = Some (StringValue ''2'')
   \<and> default_values (snd (run merge_collaborators example_section merge_argv Environment0))
        ''port'' = Some (StringValue ''27017'')
   \<and> Environment_get ''port''
        (snd (run merge_collaborators example_section merge_argv Environment0))
       = Inr (StringValue ''1'')"
  using command_line_overrides
    [of merge_collaborators example_section merge_argv
      "fst (parseCommandLine merge_collaborators example_section merge_argv Environment0)"
      "snd (parseCommandLine merge_collaborators example_section merge_argv Environment0)"
      "fst (configStage merge_collaborators example_section
               (snd (parseCommandLine merge_collaborators example_section merge_argv Environment0)))"
      "snd (configStage merge_collaborators example_section
               (snd (parseCommandLine merge_collaborators example_section merge_argv Environment0)))"
      Environment0
      "fst (run merge_collaborators example_section merge_argv Environment0)"
      "snd (run merge_collaborators example_section merge_argv Environment0)"
      "''port''"]
  by (simp add: run_defs merge_collaborators_def merge_argv_def)

section \<open>What an error of \<open>run\<close> leaves behind\<close>




end
